theory Spec2Isabelle
  imports Main "HOL-Library.Word" "HOL-Library.Sublist"
begin

section \<open>Python values used by the overlay\<close>

text \<open>
  Strings are byte strings. The two strings the program searches for are ASCII, so
  \<open>str.lower()\<close> is modelled on the ASCII letters; every other byte is kept.
\<close>

definition lower_char :: "char \<Rightarrow> char" where
  "lower_char c =
     (case map_of (zip ''ABCDEFGHIJKLMNOPQRSTUVWXYZ'' ''abcdefghijklmnopqrstuvwxyz'') c of
        Some l \<Rightarrow> l
      | None \<Rightarrow> c)"

definition lower :: "string \<Rightarrow> string" where
  "lower s = map lower_char s"

text \<open>\<open>pat in s\<close> on two strings: \<open>pat\<close> occurs in \<open>s\<close> as a contiguous run.\<close>

fun str_contains :: "string \<Rightarrow> string \<Rightarrow> bool" where
  "str_contains pat [] = (pat = [])"
| "str_contains pat (c # cs) = (prefix pat (c # cs) \<or> str_contains pat cs)"

text \<open>\<open>x in xs\<close> on a list: some element equals \<open>x\<close>.\<close>

definition list_contains :: "'a \<Rightarrow> 'a list \<Rightarrow> bool" where
  "list_contains x xs = (x \<in> set xs)"

text \<open>The decimal text of an integer, as an f-string field \<open>{n}\<close> prints it.\<close>

definition digit_char :: "nat \<Rightarrow> char" where
  "digit_char d = ''0123456789'' ! d"

fun str_nat :: "nat \<Rightarrow> string" where
  "str_nat n = (if n < 10 then [digit_char n] else str_nat (n div 10) @ [digit_char (n mod 10)])"

declare str_nat.simps [simp del]

definition str_int :: "int \<Rightarrow> string" where
  "str_int i = (if i < 0 then CHR ''-'' # str_nat (nat (- i)) else str_nat (nat i))"

datatype level = DEBUG | INFO | WARNING | ERROR


section \<open>mvu_overlay_app.py: the Monitor process\<close>

subsection \<open>AppConfig\<close>

definition TARGET_PROCESS_NAME :: string where
  "TARGET_PROCESS_NAME = ''python''"

definition TARGET_CMDLINE_KEYWORD :: string where
  "TARGET_CMDLINE_KEYWORD = ''main.py''"

subsection \<open>The telemetry library (pynvml)\<close>

text \<open>
  The library is a collaborator of the program. Each of its four functions either returns
  or raises \<open>NVMLError\<close> with the library's return code; what it answers may depend on
  every call made so far, so each answer is a function of the call history.
  A device handle is a pointer: the value 0 is the null pointer, which Python treats as
  false. The memory counters are unsigned 64-bit fields.
\<close>

type_synonym NVMLError = nat

datatype nvml_call =
    NvmlInit
  | NvmlDeviceGetHandleByIndex nat
  | NvmlDeviceGetMemoryInfo nat
  | NvmlShutdown

record c_nvmlMemory_t =
  total :: "64 word"
  free :: "64 word"
  used :: "64 word"

record pynvml =
  nvmlInit :: "nvml_call list \<Rightarrow> NVMLError option"
  nvmlDeviceGetHandleByIndex :: "nvml_call list \<Rightarrow> nat \<Rightarrow> NVMLError + nat"
  nvmlDeviceGetMemoryInfo :: "nvml_call list \<Rightarrow> nat \<Rightarrow> NVMLError + c_nvmlMemory_t"
  nvmlShutdown :: "nvml_call list \<Rightarrow> NVMLError option"

subsection \<open>VramMonitorModel, with the view's label and the log\<close>

datatype monitor_msg =
    NvmlInitialized
  | NvmlInitFailed NVMLError
  | MemoryReadFailed NVMLError
  | NvmlReleased
  | NvmlShutdownFailed NVMLError

text \<open>
  \<open>handle\<close> and \<open>initialized\<close> are the model's fields \<open>_handle\<close> and \<open>_initialized\<close>;
  \<open>calls\<close> is every call issued to the telemetry library so far, \<open>label\<close> the text the
  view shows, \<open>logged\<close> the log records written.
\<close>

record monitor =
  handle :: "nat option"
  initialized :: bool
  calls :: "nvml_call list"
  label :: string
  logged :: "(level \<times> monitor_msg) list"

text \<open>\<open>VramMonitorModel.__init__\<close>, and the view's first text.\<close>

definition new_monitor :: monitor where
  "new_monitor =
     \<lparr>handle = None, initialized = False, calls = [], label = ''Init...'', logged = []\<rparr>"

definition initialize :: "pynvml \<Rightarrow> monitor \<Rightarrow> monitor" where
  "initialize lib s =
     (case nvmlInit lib (calls s) of
        Some e \<Rightarrow>
          s\<lparr>calls := calls s @ [NvmlInit],
            logged := logged s @ [(ERROR, NvmlInitFailed e)],
            initialized := False\<rparr>
      | None \<Rightarrow>
          (case nvmlDeviceGetHandleByIndex lib (calls s @ [NvmlInit]) 0 of
             Inl e \<Rightarrow>
               s\<lparr>calls := calls s @ [NvmlInit, NvmlDeviceGetHandleByIndex 0],
                 logged := logged s @ [(ERROR, NvmlInitFailed e)],
                 initialized := False\<rparr>
           | Inr h \<Rightarrow>
               s\<lparr>calls := calls s @ [NvmlInit, NvmlDeviceGetHandleByIndex 0],
                 handle := Some h,
                 initialized := True,
                 logged := logged s @ [(INFO, NvmlInitialized)]\<rparr>))"

text \<open>\<open>not self._handle\<close>: the field is \<open>None\<close> or a null pointer.\<close>

definition handle_falsy :: "nat option \<Rightarrow> bool" where
  "handle_falsy h = (case h of None \<Rightarrow> True | Some p \<Rightarrow> p = 0)"

definition get_free_memory_mb :: "pynvml \<Rightarrow> monitor \<Rightarrow> int option \<times> monitor" where
  "get_free_memory_mb lib s =
     (if \<not> initialized s \<or> handle_falsy (handle s) then (None, s)
      else
        (case handle s of
           None \<Rightarrow> (None, s)
         | Some h \<Rightarrow>
             (case nvmlDeviceGetMemoryInfo lib (calls s) h of
                Inr mem_info \<Rightarrow>
                  (Some (uint (free mem_info) div (1024 ^ 2)),
                   s\<lparr>calls := calls s @ [NvmlDeviceGetMemoryInfo h]\<rparr>)
              | Inl e \<Rightarrow>
                  (None,
                   s\<lparr>calls := calls s @ [NvmlDeviceGetMemoryInfo h],
                     logged := logged s @ [(WARNING, MemoryReadFailed e)]\<rparr>))))"

definition shutdown :: "pynvml \<Rightarrow> monitor \<Rightarrow> monitor" where
  "shutdown lib s =
     (if initialized s then
        (case nvmlShutdown lib (calls s) of
           None \<Rightarrow>
             s\<lparr>calls := calls s @ [NvmlShutdown],
               logged := logged s @ [(INFO, NvmlReleased)]\<rparr>
         | Some e \<Rightarrow>
             s\<lparr>calls := calls s @ [NvmlShutdown],
               logged := logged s @ [(ERROR, NvmlShutdownFailed e)]\<rparr>)
      else s)"

subsection \<open>OverlayController\<close>

text \<open>\<open>_update_vram\<close>: one poll cycle.\<close>

definition update_vram :: "pynvml \<Rightarrow> monitor \<Rightarrow> monitor" where
  "update_vram lib s =
     (case get_free_memory_mb lib s of
        (Some free_mb, s') \<Rightarrow> s'\<lparr>label := ''VRAM: '' @ str_int free_mb @ '' MB''\<rparr>
      | (None, s') \<Rightarrow> s'\<lparr>label := ''VRAM: Err''\<rparr>)"

text \<open>The timer firing \<open>n\<close> times: the texts shown, oldest first, and the last state.\<close>

fun poll_cycles :: "pynvml \<Rightarrow> nat \<Rightarrow> monitor \<Rightarrow> string list \<times> monitor" where
  "poll_cycles lib 0 s = ([], s)"
| "poll_cycles lib (Suc n) s =
     (let s' = update_vram lib s; (texts, s'') = poll_cycles lib n s'
      in (label s' # texts, s''))"

text \<open>\<open>cleanup\<close> stops the two timers and shuts the model down.\<close>

definition cleanup :: "pynvml \<Rightarrow> monitor \<Rightarrow> monitor" where
  "cleanup lib s = shutdown lib s"

text \<open>
  \<open>main\<close>, as far as the telemetry library sees it: the controller initialises the model
  and polls once, the timer fires \<open>n\<close> times while the event loop runs, and \<open>cleanup\<close>
  is called once the loop has ended.
\<close>

definition main_run :: "pynvml \<Rightarrow> nat \<Rightarrow> monitor" where
  "main_run lib n =
     cleanup lib (snd (poll_cycles lib n (update_vram lib (initialize lib new_monitor))))"

subsection \<open>ProcessMonitorModel\<close>

text \<open>
  The process-table library (psutil) as the detector sees it: whether a pid exists, and
  the processes \<open>process_iter(['name', 'cmdline'])\<close> yields. A yielded process carries
  the two values already fetched (\<open>Inr\<close>); the library stores \<open>None\<close> for a value it was
  denied. An entry \<open>Inl e\<close> stands for a process whose inspection raises the psutil error
  \<open>e\<close> inside the \<open>try\<close>: the \<open>except\<close> clause names these three errors and continues
  with the next process. Calling \<open>.lower()\<close> on a \<open>None\<close> name raises \<open>AttributeError\<close>,
  which that clause does not catch, so it leaves \<open>is_alive\<close>.
\<close>

record proc_info =
  name :: "string option"
  cmdline :: "string list option"

datatype psutil_error = NoSuchProcess | AccessDenied | ZombieProcess

record psutil =
  pid_exists :: "int \<Rightarrow> bool"
  process_iter :: "(psutil_error + proc_info) list"

datatype py_error = AttributeError

text \<open>The condition of the \<open>if\<close> in the loop, for a process that has a name.\<close>

definition signature_match :: "string \<Rightarrow> string list option \<Rightarrow> bool" where
  "signature_match n cl =
     (str_contains TARGET_PROCESS_NAME (lower n) \<and>
      (case cl of
         None \<Rightarrow> False
       | Some args \<Rightarrow> args \<noteq> [] \<and> list_contains TARGET_CMDLINE_KEYWORD args))"

fun fallback_scan :: "(psutil_error + proc_info) list \<Rightarrow> py_error + bool" where
  "fallback_scan [] = Inr False"
| "fallback_scan (Inl e # procs) = fallback_scan procs"
| "fallback_scan (Inr proc # procs) =
     (case name proc of
        None \<Rightarrow> Inl AttributeError
      | Some n \<Rightarrow> if signature_match n (cmdline proc) then Inr True else fallback_scan procs)"

text \<open>
  \<open>if self.target_pid:\<close> tests the truth value of the field: it holds for an integer
  other than 0, and fails for \<open>None\<close> and for the integer 0.
\<close>

definition is_alive :: "int option \<Rightarrow> psutil \<Rightarrow> py_error + bool" where
  "is_alive target_pid ps =
     (case target_pid of
        Some p \<Rightarrow> if p \<noteq> 0 then Inr (pid_exists ps p) else fallback_scan (process_iter ps)
      | None \<Rightarrow> fallback_scan (process_iter ps))"

text \<open>
  For comparison only: the matching rule in the words of the specification, which asks
  for the name to contain the first substring and for the command-line arguments to
  contain the second substring. It is not part of the program.
\<close>

definition claimed_match :: "proc_info \<Rightarrow> bool" where
  "claimed_match proc =
     ((case name proc of None \<Rightarrow> False | Some n \<Rightarrow> str_contains TARGET_PROCESS_NAME n) \<and>
      (case cmdline proc of
         None \<Rightarrow> False
       | Some args \<Rightarrow> list_ex (str_contains TARGET_CMDLINE_KEYWORD) args))"


section \<open>nodes.py: the Host process\<close>

subsection \<open>The operating system, as the supervisor sees it\<close>

text \<open>
  What the operating system answers during one call of the supervisor: whether a path
  exists, the host's own pid, what \<open>subprocess.Popen\<close> does with a command (the child's
  pid, or \<open>OSError\<close>), what \<open>Popen.poll()\<close> returns for a child (\<open>None\<close> while it
  runs, else its exit code) and what \<open>Popen.wait(timeout)\<close> returns (\<open>None\<close> stands for
  \<open>TimeoutExpired\<close>: the child has not exited when the timeout elapses). Each call of the
  supervisor takes the answers of its own moment, so a child may exit between two calls.
  \<open>OSError\<close> from \<open>Popen\<close> and \<open>TimeoutExpired\<close> from \<open>wait\<close> are the two exceptions the
  source catches; each is handled in the branch where it arises.
\<close>

type_synonym OSError = nat

record host_os =
  sys_executable :: string
  current_dir :: string
  path_exists :: "string \<Rightarrow> bool"
  getpid :: nat
  popen :: "string list \<Rightarrow> string \<Rightarrow> OSError + nat"
  poll :: "nat \<Rightarrow> int option"
  wait :: "nat \<Rightarrow> nat \<Rightarrow> int option"

text \<open>\<open>os.path.join\<close> of a directory and a relative file name (POSIX).\<close>

definition os_path_join :: "string \<Rightarrow> string \<Rightarrow> string" where
  "os_path_join d f = (if d = [] \<or> last d = CHR ''/'' then d @ f else d @ ''/'' @ f)"

text \<open>What the supervisor did to the operating system, in order.\<close>

datatype os_event =
    Spawn "string list" string nat
  | Terminate nat
  | Wait nat nat
  | Kill nat

datatype manager_msg =
    NodeExecuted bool
  | AlreadyRunning
  | ScriptNotFound string
  | Started nat
  | SpawnFailed OSError
  | Stopping
  | NoAnswerToTerminate
  | Stopped
  | StopInactive

subsection \<open>OverlayProcessManager\<close>

text \<open>
  The singleton's state: \<open>process\<close> is the field \<open>_process\<close> (the handle of the child,
  known by its pid), \<open>events\<close> the effects on the operating system so far and
  \<open>journal\<close> the log records written.
\<close>

record manager =
  process :: "nat option"
  events :: "os_event list"
  journal :: "(level \<times> manager_msg) list"

definition new_manager :: manager where
  "new_manager = \<lparr>process = None, events = [], journal = []\<rparr>"

definition is_running :: "host_os \<Rightarrow> manager \<Rightarrow> bool" where
  "is_running os m =
     (case process m of
        None \<Rightarrow> False
      | Some p \<Rightarrow> if poll os p = None then True else False)"

text \<open>The two locals of \<open>start_overlay\<close>: the script's path and the command line.\<close>

definition script_path :: "host_os \<Rightarrow> string" where
  "script_path os = os_path_join (current_dir os) ''mvu_overlay_app.py''"

definition cmd :: "host_os \<Rightarrow> string list" where
  "cmd os = [sys_executable os, script_path os, ''--pid'', str_int (int (getpid os))]"

definition start_overlay :: "host_os \<Rightarrow> manager \<Rightarrow> manager" where
  "start_overlay os m =
     (if is_running os m then m\<lparr>journal := journal m @ [(INFO, AlreadyRunning)]\<rparr>
      else if \<not> path_exists os (script_path os)
      then m\<lparr>journal := journal m @ [(ERROR, ScriptNotFound (script_path os))]\<rparr>
      else
        (case popen os (cmd os) (current_dir os) of
           Inr child \<Rightarrow>
             m\<lparr>process := Some child,
               events := events m @ [Spawn (cmd os) (current_dir os) child],
               journal := journal m @ [(INFO, Started child)]\<rparr>
         | Inl e \<Rightarrow> m\<lparr>journal := journal m @ [(ERROR, SpawnFailed e)]\<rparr>))"

definition stop_overlay :: "host_os \<Rightarrow> manager \<Rightarrow> manager" where
  "stop_overlay os m =
     (case (is_running os m, process m) of
        (True, Some p) \<Rightarrow>
          (let m1 = m\<lparr>journal := journal m @ [(INFO, Stopping)]\<rparr>;
               m2 = m1\<lparr>events := events m1 @ [Terminate p]\<rparr>;
               m3 = m2\<lparr>events := events m2 @ [Wait p 2]\<rparr>;
               m4 = (case wait os p 2 of
                       Some rc \<Rightarrow> m3
                     | None \<Rightarrow>
                         m3\<lparr>journal := journal m3 @ [(WARNING, NoAnswerToTerminate)],
                           events := events m3 @ [Kill p]\<rparr>)
           in m4\<lparr>process := None, journal := journal m4 @ [(INFO, Stopped)]\<rparr>)
      | _ \<Rightarrow> m\<lparr>journal := journal m @ [(DEBUG, StopInactive)]\<rparr>)"

subsection \<open>MVU_VramOverlay\<close>

text \<open>\<open>run\<close> returns the one-element tuple \<open>(enabled,)\<close>; the model returns its element.\<close>

definition run :: "host_os \<Rightarrow> bool \<Rightarrow> manager \<Rightarrow> bool \<times> manager" where
  "run os enabled m =
     (let m0 = m\<lparr>journal := journal m @ [(INFO, NodeExecuted enabled)]\<rparr> in
      if enabled then (enabled, start_overlay os m0) else (enabled, stop_overlay os m0))"


section \<open>Example environments\<close>

text \<open>
  A telemetry library whose four functions answer the same whatever was called before:
  the answers of \<open>nvmlInit\<close>, \<open>nvmlDeviceGetHandleByIndex\<close>, \<open>nvmlDeviceGetMemoryInfo\<close>
  and \<open>nvmlShutdown\<close>, in this order.
\<close>

abbreviation (input) steady_library ::
  "NVMLError option \<Rightarrow> NVMLError + nat \<Rightarrow> NVMLError + c_nvmlMemory_t \<Rightarrow> NVMLError option
     \<Rightarrow> pynvml" where
  "steady_library i h m d \<equiv>
     \<lparr>nvmlInit = (\<lambda>_. i),
      nvmlDeviceGetHandleByIndex = (\<lambda>_ _. h),
      nvmlDeviceGetMemoryInfo = (\<lambda>_ _. m),
      nvmlShutdown = (\<lambda>_. d)\<rparr>"

text \<open>A working GPU with 8 GiB of memory, of which \<open>b\<close> bytes are free.\<close>

abbreviation (input) gpu_free :: "64 word \<Rightarrow> pynvml" where
  "gpu_free b \<equiv>
     steady_library None (Inr 7) (Inr \<lparr>total = 8589934592, free = b, used = 8589934592 - b\<rparr>) None"

text \<open>A machine without a driver: every call raises.\<close>

abbreviation (input) no_gpu :: pynvml where
  "no_gpu \<equiv> steady_library (Some 9) (Inl 1) (Inl 1) (Some 1)"

text \<open>A successfully initialised model, before its first poll.\<close>

abbreviation (input) ready_monitor :: monitor where
  "ready_monitor \<equiv>
     \<lparr>handle = Some 7, initialized = True,
      calls = [NvmlInit, NvmlDeviceGetHandleByIndex 0], label = ''Init...'',
      logged = [(INFO, NvmlInitialized)]\<rparr>"


text \<open>
  A host whose Python is \<open>/usr/bin/python3\<close>, installed in \<open>/opt/nodes/overlay\<close> and
  running as pid 4242. The arguments say whether the overlay script is there, what
  \<open>Popen\<close> answers, what \<open>poll()\<close> answers for a child and what \<open>wait(timeout)\<close> answers.
\<close>

abbreviation (input) host ::
  "bool \<Rightarrow> OSError + nat \<Rightarrow> (nat \<Rightarrow> int option) \<Rightarrow> (nat \<Rightarrow> nat \<Rightarrow> int option) \<Rightarrow> host_os" where
  "host script_there spawned polled waited \<equiv>
     \<lparr>sys_executable = ''/usr/bin/python3'',
      current_dir = ''/opt/nodes/overlay'',
      path_exists = (\<lambda>path. script_there \<and> path = ''/opt/nodes/overlay/mvu_overlay_app.py''),
      getpid = 4242,
      popen = (\<lambda>_ _. spawned),
      poll = polled,
      wait = waited\<rparr>"

text \<open>A supervisor holding the handle of child 77, spawned earlier.\<close>

abbreviation (input) manager_with_child :: manager where
  "manager_with_child \<equiv>
     \<lparr>process = Some 77,
      events = [Spawn [''/usr/bin/python3'', ''/opt/nodes/overlay/mvu_overlay_app.py'',
                       ''--pid'', ''4242''] ''/opt/nodes/overlay'' 77],
      journal = [(INFO, Started 77)]\<rparr>"

section \<open>Properties of the Monitor process\<close>

subsection \<open>Strings\<close>

lemma str_contains_sublist: "str_contains pat s \<longleftrightarrow> sublist pat s"
  by (induction s) (auto simp: sublist_Cons_right)

lemma str_nat_small: "n < 10 \<Longrightarrow> str_nat n = [digit_char n]"
  by (simp add: str_nat.simps)

lemma str_nat_large:
  "\<not> n < 10 \<Longrightarrow> str_nat n = str_nat (n div 10) @ [digit_char (n mod 10)]"
  by (subst str_nat.simps) simp

subsection \<open>Reading the free memory\<close>

lemma get_free_memory_mb_unavailable:
  "\<not> initialized s \<or> handle_falsy (handle s) \<Longrightarrow> get_free_memory_mb lib s = (None, s)"
  by (simp add: get_free_memory_mb_def)

lemma get_free_memory_mb_query:
  assumes "initialized s" and "handle s = Some h" and "h \<noteq> 0"
  shows "get_free_memory_mb lib s =
    (case nvmlDeviceGetMemoryInfo lib (calls s) h of
       Inr mem_info \<Rightarrow>
         (Some (uint (free mem_info) div 1048576),
          s\<lparr>calls := calls s @ [NvmlDeviceGetMemoryInfo h]\<rparr>)
     | Inl e \<Rightarrow>
         (None,
          s\<lparr>calls := calls s @ [NvmlDeviceGetMemoryInfo h],
            logged := logged s @ [(WARNING, MemoryReadFailed e)]\<rparr>))"
  using assms by (simp add: get_free_memory_mb_def handle_falsy_def split: sum.splits)

lemma get_free_memory_mb_None_iff:
  "fst (get_free_memory_mb lib s) = None \<longleftrightarrow>
     (\<not> initialized s \<or> handle_falsy (handle s) \<or>
      (\<exists>h e. handle s = Some h \<and> nvmlDeviceGetMemoryInfo lib (calls s) h = Inl e))"
  by (auto simp: get_free_memory_mb_def handle_falsy_def split: option.splits sum.splits)

lemma get_free_memory_mb_model:
  "initialized (snd (get_free_memory_mb lib s)) = initialized s \<and>
   handle (snd (get_free_memory_mb lib s)) = handle s"
  by (simp add: get_free_memory_mb_def split: option.splits sum.splits)

lemma update_vram_unavailable:
  "\<not> initialized s \<or> handle_falsy (handle s) \<Longrightarrow>
   update_vram lib s = s\<lparr>label := ''VRAM: Err''\<rparr>"
  by (simp add: update_vram_def get_free_memory_mb_unavailable)

lemma update_vram_label:
  "label (update_vram lib s) =
     (case fst (get_free_memory_mb lib s) of
        None \<Rightarrow> ''VRAM: Err''
      | Some mb \<Rightarrow> ''VRAM: '' @ str_int mb @ '' MB'')"
  by (simp add: update_vram_def split: prod.splits option.splits)

lemma update_vram_model:
  "initialized (update_vram lib s) = initialized s \<and> handle (update_vram lib s) = handle s"
proof (cases "get_free_memory_mb lib s")
  case (Pair r s')
  with get_free_memory_mb_model [of lib s] show ?thesis
    by (cases r) (simp_all add: update_vram_def)
qed

text \<open>
  C9. When the model is initialised with a usable handle and the telemetry query returns,
  the value reported is the free byte count divided by 1048576, rounded down: it is the
  whole number \<open>mb\<close> with \<open>mb * 1048576 \<le> bytes < (mb + 1) * 1048576\<close>. The poll cycle
  shows it as \<open>VRAM: {mb} MB\<close>; 5242879 bytes are shown as \<open>VRAM: 4 MB\<close>.
\<close>

theorem free_memory_floor_megabytes:
  assumes "initialized s" and "handle s = Some h" and "h \<noteq> 0"
    and "nvmlDeviceGetMemoryInfo lib (calls s) h = Inr mem_info"
  shows "fst (get_free_memory_mb lib s) = Some (uint (free mem_info) div 1048576)
    \<and> label (update_vram lib s) =
        ''VRAM: '' @ str_int (uint (free mem_info) div 1048576) @ '' MB''
    \<and> (uint (free mem_info) div 1048576) * 1048576 \<le> uint (free mem_info)
    \<and> uint (free mem_info) < (uint (free mem_info) div 1048576 + 1) * 1048576
    \<and> (free mem_info = 5242879 \<longrightarrow> label (update_vram lib s) = ''VRAM: 4 MB'')"
proof -
  let ?mb = "uint (free mem_info) div 1048576"
  have q: "get_free_memory_mb lib s =
      (Some ?mb, s\<lparr>calls := calls s @ [NvmlDeviceGetMemoryInfo h]\<rparr>)"
    using assms by (simp add: get_free_memory_mb_query)
  have l: "label (update_vram lib s) = ''VRAM: '' @ str_int ?mb @ '' MB''"
    by (simp add: update_vram_def q)
  have lo: "?mb * 1048576 \<le> uint (free mem_info)"
    by simp
  have hi: "uint (free mem_info) < (?mb + 1) * 1048576"
    using div_mult_mod_eq [of "uint (free mem_info)" 1048576]
      pos_mod_bound [of 1048576 "uint (free mem_info)"]
    by (simp add: algebra_simps)
  have four: "str_int 4 = ''4''"
    by (simp add: str_int_def str_nat_small digit_char_def)
  have ex: "free mem_info = 5242879 \<longrightarrow> label (update_vram lib s) = ''VRAM: 4 MB''"
  proof
    assume "free mem_info = 5242879"
    then have "?mb = 4" by simp
    with l four show "label (update_vram lib s) = ''VRAM: 4 MB''" by simp
  qed
  from q l lo hi ex show ?thesis by simp
qed

theorem free_memory_floor_megabytes_witness:
  "fst (get_free_memory_mb (gpu_free 5242879) ready_monitor) = Some 4
   \<and> label (update_vram (gpu_free 5242879) ready_monitor) = ''VRAM: 4 MB''"
proof -
  let ?mi = "\<lparr>total = 8589934592, free = 5242879, used = 8589934592 - 5242879\<rparr> :: c_nvmlMemory_t"
  have h1: "initialized ready_monitor" and h2: "handle ready_monitor = Some 7"
    and h3: "(7::nat) \<noteq> 0"
    and h4: "nvmlDeviceGetMemoryInfo (gpu_free 5242879) (calls ready_monitor) 7 = Inr ?mi"
    by simp_all
  from free_memory_floor_megabytes [OF h1 h2 h3 h4]
  have a: "fst (get_free_memory_mb (gpu_free 5242879) ready_monitor)
             = Some (uint (free ?mi) div 1048576)"
    and b: "free ?mi = 5242879 \<longrightarrow>
             label (update_vram (gpu_free 5242879) ready_monitor) = ''VRAM: 4 MB''"
    by blast+
  from a have "fst (get_free_memory_mb (gpu_free 5242879) ready_monitor) = Some 4"
    by simp
  moreover from b have "label (update_vram (gpu_free 5242879) ready_monitor) = ''VRAM: 4 MB''"
    by simp
  ultimately show ?thesis by blast
qed

text \<open>
  C10. \<open>get_free_memory_mb\<close> returns on every model state and for every behaviour of the
  library. It returns \<open>None\<close> exactly on its three failure paths: the model is not
  initialised, the handle is missing (or null), or the telemetry query raises. The poll
  cycle then shows \<open>VRAM: Err\<close>, and shows \<open>VRAM: {mb} MB\<close> for a value \<open>mb\<close>; in both
  cases it leaves the model's two fields as they were, so the next cycle runs as well.
\<close>

theorem get_free_memory_mb_never_raises:
  "(fst (get_free_memory_mb lib s) = None \<longleftrightarrow>
      (\<not> initialized s \<or> handle_falsy (handle s) \<or>
       (\<exists>h e. handle s = Some h \<and> nvmlDeviceGetMemoryInfo lib (calls s) h = Inl e)))
   \<and> (fst (get_free_memory_mb lib s) = None \<longrightarrow> label (update_vram lib s) = ''VRAM: Err'')
   \<and> (\<forall>mb. fst (get_free_memory_mb lib s) = Some mb \<longrightarrow>
         label (update_vram lib s) = ''VRAM: '' @ str_int mb @ '' MB'')
   \<and> initialized (update_vram lib s) = initialized s
   \<and> handle (update_vram lib s) = handle s"
proof (intro conjI allI impI)
  show "fst (get_free_memory_mb lib s) = None \<longleftrightarrow>
      (\<not> initialized s \<or> handle_falsy (handle s) \<or>
       (\<exists>h e. handle s = Some h \<and> nvmlDeviceGetMemoryInfo lib (calls s) h = Inl e))"
    by (rule get_free_memory_mb_None_iff)
next
  assume "fst (get_free_memory_mb lib s) = None"
  then show "label (update_vram lib s) = ''VRAM: Err''"
    by (simp add: update_vram_label)
next
  fix mb
  assume "fst (get_free_memory_mb lib s) = Some mb"
  then show "label (update_vram lib s) = ''VRAM: '' @ str_int mb @ '' MB''"
    by (simp add: update_vram_label)
next
  show "initialized (update_vram lib s) = initialized s"
    by (simp add: update_vram_model)
next
  show "handle (update_vram lib s) = handle s"
    by (simp add: update_vram_model)
qed

theorem get_free_memory_mb_never_raises_witness:
  "label (update_vram (gpu_free 5242879) new_monitor) = ''VRAM: Err''
   \<and> label (update_vram (gpu_free 5242879) (ready_monitor\<lparr>handle := Some 0\<rparr>)) = ''VRAM: Err''
   \<and> label (update_vram (steady_library None (Inr 7) (Inl 999) None) ready_monitor)
       = ''VRAM: Err''"
proof -
  have a: "\<not> initialized new_monitor"
    by (simp add: new_monitor_def)
  have b: "handle_falsy (handle (ready_monitor\<lparr>handle := Some 0\<rparr>))"
    by (simp add: handle_falsy_def)
  have c: "\<exists>h e. handle ready_monitor = Some h \<and>
      nvmlDeviceGetMemoryInfo (steady_library None (Inr 7) (Inl 999) None)
        (calls ready_monitor) h = Inl e"
    by simp
  from a get_free_memory_mb_never_raises [of "gpu_free 5242879" new_monitor]
  have "label (update_vram (gpu_free 5242879) new_monitor) = ''VRAM: Err''"
    by blast
  moreover from b
    get_free_memory_mb_never_raises [of "gpu_free 5242879" "ready_monitor\<lparr>handle := Some 0\<rparr>"]
  have "label (update_vram (gpu_free 5242879) (ready_monitor\<lparr>handle := Some 0\<rparr>)) = ''VRAM: Err''"
    by blast
  moreover from c
    get_free_memory_mb_never_raises [of "steady_library None (Inr 7) (Inl 999) None" ready_monitor]
  have "label (update_vram (steady_library None (Inr 7) (Inl 999) None) ready_monitor)
      = ''VRAM: Err''"
    by blast
  ultimately show ?thesis by blast
qed

subsection \<open>A failed initialisation\<close>

lemma initialize_failed_iff:
  "\<not> initialized (initialize lib s) \<longleftrightarrow>
     (nvmlInit lib (calls s) \<noteq> None \<or>
      (\<exists>e. nvmlDeviceGetHandleByIndex lib (calls s @ [NvmlInit]) 0 = Inl e))"
  by (auto simp: initialize_def split: option.splits sum.splits)

lemma poll_cycles_uninitialized:
  "\<not> initialized s \<Longrightarrow>
   poll_cycles lib n s =
     (replicate n ''VRAM: Err'', if n = 0 then s else s\<lparr>label := ''VRAM: Err''\<rparr>)"
proof (induction n arbitrary: s)
  case 0
  then show ?case by simp
next
  case (Suc n)
  from Suc.prems have u: "update_vram lib s = s\<lparr>label := ''VRAM: Err''\<rparr>"
    by (simp add: update_vram_unavailable)
  have "\<not> initialized (s\<lparr>label := ''VRAM: Err''\<rparr>)"
    using Suc.prems by simp
  from Suc.IH [OF this] u show ?case
    by (simp add: Let_def)
qed

text \<open>
  C6. When \<open>initialize()\<close> has failed (the model is left uninitialised, which happens
  exactly when \<open>nvmlInit\<close> or \<open>nvmlDeviceGetHandleByIndex\<close> raises), any number \<open>n\<close> of
  poll cycles after it show the error text every time, issue no call to the telemetry
  library at all, so no further \<open>nvmlInit\<close>, and leave the model uninitialised, so the
  next \<open>get_free_memory_mb()\<close> returns \<open>None\<close> again.
\<close>

theorem failed_initialize_never_retried:
  assumes "\<not> initialized (initialize lib s)"
  shows "fst (poll_cycles lib n (initialize lib s)) = replicate n ''VRAM: Err''
    \<and> calls (snd (poll_cycles lib n (initialize lib s))) = calls (initialize lib s)
    \<and> \<not> initialized (snd (poll_cycles lib n (initialize lib s)))
    \<and> fst (get_free_memory_mb lib (snd (poll_cycles lib n (initialize lib s)))) = None
    \<and> count_list (calls (snd (poll_cycles lib n (initialize lib s)))) NvmlInit
        = count_list (calls s) NvmlInit + 1"
proof -
  let ?s1 = "initialize lib s"
  have p: "poll_cycles lib n ?s1 =
      (replicate n ''VRAM: Err'', if n = 0 then ?s1 else ?s1\<lparr>label := ''VRAM: Err''\<rparr>)"
    using assms by (rule poll_cycles_uninitialized)
  have c: "count_list (calls ?s1) NvmlInit = count_list (calls s) NvmlInit + 1"
    by (simp add: initialize_def split: option.splits sum.splits)
  have u: "\<not> initialized (snd (poll_cycles lib n ?s1))"
    using assms by (simp add: p)
  have g: "fst (get_free_memory_mb lib (snd (poll_cycles lib n ?s1))) = None"
    using u by (simp add: get_free_memory_mb_unavailable)
  from p c u g assms show ?thesis by simp
qed

theorem failed_initialize_never_retried_witness:
  "fst (poll_cycles no_gpu 100 (initialize no_gpu new_monitor)) = replicate 100 ''VRAM: Err''
   \<and> calls (snd (poll_cycles no_gpu 100 (initialize no_gpu new_monitor))) = [NvmlInit]"
proof -
  have h: "\<not> initialized (initialize no_gpu new_monitor)"
    by (simp add: initialize_def new_monitor_def)
  have c: "calls (initialize no_gpu new_monitor) = [NvmlInit]"
    by (simp add: initialize_def new_monitor_def)
  from failed_initialize_never_retried [OF h, of 100] c show ?thesis
    by simp
qed

subsection \<open>Releasing the library\<close>

text \<open>
  C2, as the claim states it, fails: the second of two \<open>shutdown()\<close> calls on an
  initialised model is not a no-op. It issues a second release call, because \<open>shutdown\<close>
  never clears \<open>_initialized\<close>.
\<close>

theorem shutdown_twice_releases_twice:
  "calls (shutdown (gpu_free 5242879) (shutdown (gpu_free 5242879) ready_monitor))
     = [NvmlInit, NvmlDeviceGetHandleByIndex 0, NvmlShutdown, NvmlShutdown]
   \<and> shutdown (gpu_free 5242879) (shutdown (gpu_free 5242879) ready_monitor)
       \<noteq> shutdown (gpu_free 5242879) ready_monitor"
  by (simp add: shutdown_def)

lemma shutdown_calls:
  "calls (shutdown lib s) = (if initialized s then calls s @ [NvmlShutdown] else calls s)"
  by (simp add: shutdown_def split: option.splits)

lemma shutdown_model:
  "initialized (shutdown lib s) = initialized s \<and> handle (shutdown lib s) = handle s"
  by (simp add: shutdown_def split: option.splits)

text \<open>
  C2, amended. Each \<open>shutdown()\<close> call issues one release call when the model is
  initialised and none when it is not, and it leaves both fields of the model as they
  were; two calls in a row on an initialised model therefore issue two release calls.
\<close>

theorem shutdown_releases_on_every_call:
  "calls (shutdown lib s) = (if initialized s then calls s @ [NvmlShutdown] else calls s)
   \<and> initialized (shutdown lib s) = initialized s
   \<and> handle (shutdown lib s) = handle s
   \<and> calls (shutdown lib (shutdown lib s))
       = (if initialized s then calls s @ [NvmlShutdown, NvmlShutdown] else calls s)"
  by (simp add: shutdown_calls shutdown_model)

theorem shutdown_releases_on_every_call_witness:
  "calls (shutdown (gpu_free 5242879) ready_monitor)
     = [NvmlInit, NvmlDeviceGetHandleByIndex 0, NvmlShutdown]
   \<and> calls (shutdown no_gpu new_monitor) = []"
  using shutdown_releases_on_every_call [of "gpu_free 5242879" ready_monitor]
    shutdown_releases_on_every_call [of no_gpu new_monitor]
  by (simp add: new_monitor_def)

subsection \<open>Releasing once per run\<close>

text \<open>
  In a run of \<open>main\<close> the library is released once when the initialisation succeeded and
  never when it failed: \<open>cleanup\<close> is called once, and nothing else issues a release.
\<close>

lemma update_vram_no_release:
  "count_list (calls (update_vram lib s)) NvmlShutdown = count_list (calls s) NvmlShutdown"
  by (simp add: update_vram_def get_free_memory_mb_def split: option.splits sum.splits)

lemma snd_poll_cycles_Suc:
  "snd (poll_cycles lib (Suc n) s) = snd (poll_cycles lib n (update_vram lib s))"
  by (simp add: Let_def split: prod.splits)

lemma poll_cycles_model:
  "initialized (snd (poll_cycles lib n s)) = initialized s
   \<and> count_list (calls (snd (poll_cycles lib n s))) NvmlShutdown
       = count_list (calls s) NvmlShutdown"
proof (induction n arbitrary: s)
  case 0
  then show ?case by simp
next
  case (Suc n)
  from Suc.IH [of "update_vram lib s"] show ?case
    by (simp only: snd_poll_cycles_Suc update_vram_model update_vram_no_release)
qed

lemma initialize_no_release:
  "count_list (calls (initialize lib s)) NvmlShutdown = count_list (calls s) NvmlShutdown"
  by (simp add: initialize_def split: option.splits sum.splits)

lemma main_run_releases_once:
  "count_list (calls (main_run lib n)) NvmlShutdown =
     (if initialized (initialize lib new_monitor) then 1 else 0)"
proof -
  let ?s1 = "initialize lib new_monitor"
  let ?s2 = "update_vram lib ?s1"
  let ?s3 = "snd (poll_cycles lib n ?s2)"
  have i: "initialized ?s3 = initialized ?s1"
    by (simp add: poll_cycles_model update_vram_model)
  have c: "count_list (calls ?s3) NvmlShutdown = 0"
    by (simp add: poll_cycles_model update_vram_no_release initialize_no_release new_monitor_def)
  show ?thesis
    by (simp add: main_run_def cleanup_def shutdown_calls i c)
qed

subsection \<open>Liveness of the host\<close>

lemma is_alive_explicit_pid:
  "p \<noteq> 0 \<Longrightarrow> is_alive (Some p) ps = Inr (pid_exists ps p)"
  by (simp add: is_alive_def)

lemma is_alive_without_pid:
  "is_alive None ps = fallback_scan (process_iter ps)"
  by (simp add: is_alive_def)

text \<open>
  C3. The claim holds for every explicit pid but 0 (\<open>is_alive_explicit_pid\<close>). For the
  explicit pid 0 the program does not look the pid up: \<open>if self.target_pid:\<close> is false
  for 0, and the answer is that of the name and command-line scan. With pid 0 in the
  process table and no matching process the answer is "not alive"; with pid 0 absent and
  a matching process it is "alive".
\<close>

theorem is_alive_pid_zero_falls_back:
  "pid_exists \<lparr>pid_exists = (\<lambda>p. p = 0), process_iter = []\<rparr> 0
   \<and> is_alive (Some 0) \<lparr>pid_exists = (\<lambda>p. p = 0), process_iter = []\<rparr> = Inr False
   \<and> \<not> pid_exists
         \<lparr>pid_exists = (\<lambda>p. False),
          process_iter = [Inr \<lparr>name = Some ''python3'', cmdline = Some [''python3'', ''main.py'']\<rparr>]\<rparr> 0
   \<and> is_alive (Some 0)
         \<lparr>pid_exists = (\<lambda>p. False),
          process_iter = [Inr \<lparr>name = Some ''python3'', cmdline = Some [''python3'', ''main.py'']\<rparr>]\<rparr>
       = Inr True"
  by (simp add: is_alive_def signature_match_def list_contains_def lower_def lower_char_def
      TARGET_PROCESS_NAME_def TARGET_CMDLINE_KEYWORD_def)

lemmas match_eval =
  signature_match_def list_contains_def lower_def lower_char_def
  TARGET_PROCESS_NAME_def TARGET_CMDLINE_KEYWORD_def

text \<open>
  C1, as the claim states it, fails in fallback mode. A process named \<open>python3\<close> whose
  argument \<open>/opt/ComfyUI/main.py\<close> contains the second substring is not reported alive:
  the program asks for an argument equal to \<open>main.py\<close>. A process named \<open>Python.exe\<close>
  does not contain \<open>python\<close>, yet is reported alive: the program lower-cases the name
  first. And a process without a name ahead of a matching one makes the detector raise
  \<open>AttributeError\<close> instead of reporting alive.
\<close>

theorem fallback_differs_from_substring_claim:
  "claimed_match \<lparr>name = Some ''python3'', cmdline = Some [''python3'', ''/opt/ComfyUI/main.py'']\<rparr>
   \<and> is_alive None
         \<lparr>pid_exists = (\<lambda>p. False),
          process_iter =
            [Inr \<lparr>name = Some ''python3'', cmdline = Some [''python3'', ''/opt/ComfyUI/main.py'']\<rparr>]\<rparr>
       = Inr False
   \<and> \<not> claimed_match \<lparr>name = Some ''Python.exe'', cmdline = Some [''Python.exe'', ''main.py'']\<rparr>
   \<and> is_alive None
         \<lparr>pid_exists = (\<lambda>p. False),
          process_iter =
            [Inr \<lparr>name = Some ''Python.exe'', cmdline = Some [''Python.exe'', ''main.py'']\<rparr>]\<rparr>
       = Inr True
   \<and> claimed_match \<lparr>name = Some ''python3'', cmdline = Some [''python3'', ''main.py'']\<rparr>
   \<and> is_alive None
         \<lparr>pid_exists = (\<lambda>p. False),
          process_iter =
            [Inr \<lparr>name = None, cmdline = None\<rparr>,
             Inr \<lparr>name = Some ''python3'', cmdline = Some [''python3'', ''main.py'']\<rparr>]\<rparr>
       = Inl AttributeError"
  by (simp add: is_alive_def claimed_match_def match_eval)

lemma signature_match_iff:
  "signature_match n cl \<longleftrightarrow>
     sublist ''python'' (lower n) \<and> (\<exists>args. cl = Some args \<and> ''main.py'' \<in> set args)"
  by (auto simp: signature_match_def list_contains_def str_contains_sublist
      TARGET_PROCESS_NAME_def TARGET_CMDLINE_KEYWORD_def split: option.splits)

lemma fallback_scan_True:
  "fallback_scan procs = Inr True \<Longrightarrow>
   \<exists>proc n. Inr proc \<in> set procs \<and> name proc = Some n \<and> signature_match n (cmdline proc)"
  by (induction procs rule: fallback_scan.induct) (auto split: option.splits if_splits)

lemma fallback_scan_named:
  "\<forall>proc. Inr proc \<in> set procs \<longrightarrow> name proc \<noteq> None \<Longrightarrow>
   fallback_scan procs =
     Inr (\<exists>proc n. Inr proc \<in> set procs \<and> name proc = Some n
            \<and> signature_match n (cmdline proc))"
  by (induction procs rule: fallback_scan.induct) (auto split: option.splits)

text \<open>
  C1, amended. Without a target pid, the detector reports alive only if some enumerated
  process has a name whose lower-cased form contains \<open>python\<close> and has \<open>main.py\<close> as one
  of its command-line arguments; a process meeting one of the two conditions alone never
  makes it report alive. When every enumerated process has a name, it reports alive
  exactly when such a process exists, and not alive otherwise.
\<close>

theorem fallback_liveness_matching:
  "(is_alive None ps = Inr True \<longrightarrow>
      (\<exists>proc n args. Inr proc \<in> set (process_iter ps)
          \<and> name proc = Some n \<and> cmdline proc = Some args
          \<and> sublist ''python'' (lower n) \<and> ''main.py'' \<in> set args))
   \<and> ((\<forall>proc. Inr proc \<in> set (process_iter ps) \<longrightarrow> name proc \<noteq> None) \<longrightarrow>
      is_alive None ps =
        Inr (\<exists>proc n args. Inr proc \<in> set (process_iter ps)
               \<and> name proc = Some n \<and> cmdline proc = Some args
               \<and> sublist ''python'' (lower n) \<and> ''main.py'' \<in> set args))"
proof (intro conjI impI)
  assume "is_alive None ps = Inr True"
  then have "fallback_scan (process_iter ps) = Inr True"
    by (simp add: is_alive_without_pid)
  from fallback_scan_True [OF this]
  show "\<exists>proc n args. Inr proc \<in> set (process_iter ps)
          \<and> name proc = Some n \<and> cmdline proc = Some args
          \<and> sublist ''python'' (lower n) \<and> ''main.py'' \<in> set args"
    by (auto simp: signature_match_iff)
next
  assume "\<forall>proc. Inr proc \<in> set (process_iter ps) \<longrightarrow> name proc \<noteq> None"
  from fallback_scan_named [OF this]
  show "is_alive None ps =
        Inr (\<exists>proc n args. Inr proc \<in> set (process_iter ps)
               \<and> name proc = Some n \<and> cmdline proc = Some args
               \<and> sublist ''python'' (lower n) \<and> ''main.py'' \<in> set args)"
    by (simp add: is_alive_without_pid signature_match_iff) blast
qed

theorem fallback_liveness_matching_witness:
  "is_alive None
     \<lparr>pid_exists = (\<lambda>p. False),
      process_iter =
        [Inr \<lparr>name = Some ''python3'', cmdline = Some [''python3'', ''server.py'']\<rparr>,
         Inl AccessDenied,
         Inr \<lparr>name = Some ''bash'', cmdline = Some [''bash'', ''main.py'']\<rparr>]\<rparr>
     = Inr False
   \<and> is_alive None
     \<lparr>pid_exists = (\<lambda>p. False),
      process_iter =
        [Inr \<lparr>name = Some ''python3'', cmdline = Some [''python3'', ''server.py'']\<rparr>,
         Inl AccessDenied,
         Inr \<lparr>name = Some ''bash'', cmdline = Some [''bash'', ''main.py'']\<rparr>,
         Inr \<lparr>name = Some ''Python.exe'', cmdline = Some [''Python.exe'', ''main.py'']\<rparr>]\<rparr>
     = Inr True"
proof -
  let ?half = "[Inr \<lparr>name = Some ''python3'', cmdline = Some [''python3'', ''server.py'']\<rparr>,
         Inl AccessDenied,
         Inr \<lparr>name = Some ''bash'', cmdline = Some [''bash'', ''main.py'']\<rparr>]"
  let ?full = "?half @ [Inr \<lparr>name = Some ''Python.exe'', cmdline = Some [''Python.exe'', ''main.py'']\<rparr>]"
  let ?a = "\<lparr>pid_exists = (\<lambda>p. False), process_iter = ?half\<rparr>"
  let ?b = "\<lparr>pid_exists = (\<lambda>p. False), process_iter = ?full\<rparr>"
  have na: "\<forall>proc. Inr proc \<in> set (process_iter ?a) \<longrightarrow> name proc \<noteq> None"
    and nb: "\<forall>proc. Inr proc \<in> set (process_iter ?b) \<longrightarrow> name proc \<noteq> None"
    by auto
  from na fallback_liveness_matching [of ?a]
  have "is_alive None ?a =
        Inr (\<exists>proc n args. Inr proc \<in> set (process_iter ?a)
               \<and> name proc = Some n \<and> cmdline proc = Some args
               \<and> sublist ''python'' (lower n) \<and> ''main.py'' \<in> set args)"
    by blast
  moreover have "\<not> (\<exists>proc n args. Inr proc \<in> set (process_iter ?a)
               \<and> name proc = Some n \<and> cmdline proc = Some args
               \<and> sublist ''python'' (lower n) \<and> ''main.py'' \<in> set args)"
    by (auto simp: str_contains_sublist [symmetric] lower_def lower_char_def)
  ultimately have a: "is_alive None ?a = Inr False"
    by simp
  from nb fallback_liveness_matching [of ?b]
  have "is_alive None ?b =
        Inr (\<exists>proc n args. Inr proc \<in> set (process_iter ?b)
               \<and> name proc = Some n \<and> cmdline proc = Some args
               \<and> sublist ''python'' (lower n) \<and> ''main.py'' \<in> set args)"
    by blast
  moreover have "\<exists>proc n args. Inr proc \<in> set (process_iter ?b)
               \<and> name proc = Some n \<and> cmdline proc = Some args
               \<and> sublist ''python'' (lower n) \<and> ''main.py'' \<in> set args"
    by (rule exI [of _ "\<lparr>name = Some ''Python.exe'', cmdline = Some [''Python.exe'', ''main.py'']\<rparr>"])
      (simp add: str_contains_sublist [symmetric] lower_def lower_char_def)
  ultimately have b: "is_alive None ?b = Inr True"
    by simp
  from a b show ?thesis by simp
qed


section \<open>Properties of the Host process\<close>

lemmas host_eval =
  cmd_def script_path_def os_path_join_def str_int_def str_nat_small str_nat_large digit_char_def

lemma is_running_iff:
  "is_running os m \<longleftrightarrow> (\<exists>p. process m = Some p \<and> poll os p = None)"
  by (simp add: is_running_def split: option.splits)

lemma start_overlay_running:
  "is_running os m \<Longrightarrow> start_overlay os m = m\<lparr>journal := journal m @ [(INFO, AlreadyRunning)]\<rparr>"
  by (simp add: start_overlay_def)

lemma start_overlay_spawned:
  assumes "\<not> is_running os m" and "path_exists os (script_path os)"
    and "popen os (cmd os) (current_dir os) = Inr child"
  shows "start_overlay os m =
    m\<lparr>process := Some child,
      events := events m @ [Spawn (cmd os) (current_dir os) child],
      journal := journal m @ [(INFO, Started child)]\<rparr>"
  using assms by (simp add: start_overlay_def)

text \<open>
  C4. The supervisor keeps at most one handle, in its one field \<open>_process\<close>. While the
  child of that handle is running, \<open>start_overlay()\<close> spawns nothing and keeps the handle:
  it only writes a log record. So when a first \<open>start_overlay()\<close> has spawned a child and
  that child is still running at the second call, the two calls together have spawned
  exactly one process, the one the handle names.
\<close>

theorem start_overlay_single_child:
  "(is_running os m \<longrightarrow>
      process (start_overlay os m) = process m
      \<and> events (start_overlay os m) = events m
      \<and> journal (start_overlay os m) = journal m @ [(INFO, AlreadyRunning)])
   \<and> (\<not> is_running os m \<and> path_exists os (script_path os)
        \<and> popen os (cmd os) (current_dir os) = Inr child \<and> poll os' child = None \<longrightarrow>
      process (start_overlay os' (start_overlay os m)) = Some child
      \<and> events (start_overlay os' (start_overlay os m))
          = events m @ [Spawn (cmd os) (current_dir os) child])"
proof (intro conjI impI)
  assume r: "is_running os m"
  show "process (start_overlay os m) = process m"
    and "events (start_overlay os m) = events m"
    and "journal (start_overlay os m) = journal m @ [(INFO, AlreadyRunning)]"
    by (simp_all add: start_overlay_running [OF r])
next
  assume a: "\<not> is_running os m \<and> path_exists os (script_path os)
        \<and> popen os (cmd os) (current_dir os) = Inr child \<and> poll os' child = None"
  let ?m1 = "start_overlay os m"
  from a have s1: "?m1 =
    m\<lparr>process := Some child,
      events := events m @ [Spawn (cmd os) (current_dir os) child],
      journal := journal m @ [(INFO, Started child)]\<rparr>"
    by (simp add: start_overlay_spawned)
  from a s1 have r: "is_running os' ?m1"
    by (simp add: is_running_iff)
  show "process (start_overlay os' ?m1) = Some child"
    using start_overlay_running [OF r] by (simp add: s1)
  show "events (start_overlay os' ?m1) = events m @ [Spawn (cmd os) (current_dir os) child]"
    using start_overlay_running [OF r] by (simp add: s1)
qed

theorem start_overlay_single_child_witness:
  "events (start_overlay (host True (Inr 78) (\<lambda>_. None) (\<lambda>_ _. None))
             (start_overlay (host True (Inr 77) (\<lambda>_. None) (\<lambda>_ _. None)) new_manager))
     = [Spawn [''/usr/bin/python3'', ''/opt/nodes/overlay/mvu_overlay_app.py'',
               ''--pid'', ''4242''] ''/opt/nodes/overlay'' 77]
   \<and> process (start_overlay (host True (Inr 78) (\<lambda>_. None) (\<lambda>_ _. None)) manager_with_child)
       = Some 77"
proof -
  let ?os = "host True (Inr 77) (\<lambda>_. None) (\<lambda>_ _. None)"
  let ?os' = "host True (Inr 78) (\<lambda>_. None) (\<lambda>_ _. None)"
  have h: "\<not> is_running ?os new_manager \<and> path_exists ?os (script_path ?os)
        \<and> popen ?os (cmd ?os) (current_dir ?os) = Inr 77 \<and> poll ?os' 77 = None"
    by (simp add: is_running_def new_manager_def script_path_def os_path_join_def)
  have r: "is_running ?os' manager_with_child"
    by (simp add: is_running_def)
  from h start_overlay_single_child [of ?os new_manager 77 ?os']
  have "events (start_overlay ?os' (start_overlay ?os new_manager))
          = events new_manager @ [Spawn (cmd ?os) (current_dir ?os) 77]"
    by blast
  then have a: "events (start_overlay ?os' (start_overlay ?os new_manager))
     = [Spawn [''/usr/bin/python3'', ''/opt/nodes/overlay/mvu_overlay_app.py'',
               ''--pid'', ''4242''] ''/opt/nodes/overlay'' 77]"
    by (simp add: new_manager_def host_eval)
  from r start_overlay_single_child [of ?os' manager_with_child 0 ?os']
  have b: "process (start_overlay ?os' manager_with_child) = Some 77"
    by simp
  from a b show ?thesis by blast
qed

lemma stop_overlay_inactive:
  "\<not> is_running os m \<Longrightarrow> stop_overlay os m = m\<lparr>journal := journal m @ [(DEBUG, StopInactive)]\<rparr>"
  by (simp add: stop_overlay_def split: option.splits)

lemma stop_overlay_active:
  assumes "is_running os m" and "process m = Some p"
  shows "stop_overlay os m =
    (case wait os p 2 of
       Some rc \<Rightarrow>
         m\<lparr>events := events m @ [Terminate p, Wait p 2],
           process := None,
           journal := journal m @ [(INFO, Stopping), (INFO, Stopped)]\<rparr>
     | None \<Rightarrow>
         m\<lparr>events := events m @ [Terminate p, Wait p 2, Kill p],
           process := None,
           journal := journal m @
             [(INFO, Stopping), (WARNING, NoAnswerToTerminate), (INFO, Stopped)]\<rparr>)"
  using assms by (simp add: stop_overlay_def Let_def split: option.splits)

text \<open>
  C5. On a running child \<open>p\<close>, \<open>stop_overlay()\<close> first sends the termination signal, then
  waits with a timeout of 2, and sends the kill signal after that wait and only when the
  wait timed out (the child had not exited); in both cases the handle is cleared when it
  returns. Time itself is not modelled: the wait is an event, and whether the child exits
  within the timeout is the operating system's answer.
\<close>

theorem stop_overlay_terminate_then_kill:
  assumes "is_running os m" and "process m = Some p"
  shows "events (stop_overlay os m) =
      events m @ [Terminate p, Wait p 2] @ (if wait os p 2 = None then [Kill p] else [])
    \<and> process (stop_overlay os m) = None"
  using assms by (simp add: stop_overlay_active split: option.splits)

theorem stop_overlay_terminate_then_kill_witness:
  "events (stop_overlay (host True (Inr 78) (\<lambda>_. None) (\<lambda>_ _. None)) manager_with_child)
     = events manager_with_child @ [Terminate 77, Wait 77 2, Kill 77]
   \<and> events (stop_overlay (host True (Inr 78) (\<lambda>_. None) (\<lambda>_ _. Some 0)) manager_with_child)
     = events manager_with_child @ [Terminate 77, Wait 77 2]
   \<and> process (stop_overlay (host True (Inr 78) (\<lambda>_. None) (\<lambda>_ _. None)) manager_with_child)
     = None"
proof -
  let ?deaf = "host True (Inr 78) (\<lambda>_. None) (\<lambda>_ _. None)"
  let ?polite = "host True (Inr 78) (\<lambda>_. None) (\<lambda>_ _. Some 0)"
  have r1: "is_running ?deaf manager_with_child" and r2: "is_running ?polite manager_with_child"
    by (simp_all add: is_running_def)
  have p: "process manager_with_child = Some 77"
    by simp
  from stop_overlay_terminate_then_kill [OF r1 p] stop_overlay_terminate_then_kill [OF r2 p]
  show ?thesis by simp
qed

text \<open>
  C8. When no child is running (there is no handle, or the handle's child has exited),
  \<open>stop_overlay()\<close> returns normally, keeps the field \<open>_process\<close> as it was and does
  nothing to the operating system: it only writes a debug log record. A second call
  changes nothing either.
\<close>

theorem stop_overlay_inactive_noop:
  assumes "\<not> is_running os m"
  shows "process (stop_overlay os m) = process m
    \<and> events (stop_overlay os m) = events m
    \<and> journal (stop_overlay os m) = journal m @ [(DEBUG, StopInactive)]
    \<and> process (stop_overlay os (stop_overlay os m)) = process m
    \<and> events (stop_overlay os (stop_overlay os m)) = events m"
proof -
  let ?m1 = "stop_overlay os m"
  have s1: "?m1 = m\<lparr>journal := journal m @ [(DEBUG, StopInactive)]\<rparr>"
    using assms by (rule stop_overlay_inactive)
  have "\<not> is_running os ?m1"
    using assms by (simp add: s1 is_running_def)
  then have s2: "stop_overlay os ?m1 = ?m1\<lparr>journal := journal ?m1 @ [(DEBUG, StopInactive)]\<rparr>"
    by (rule stop_overlay_inactive)
  show ?thesis
    by (simp add: s2) (simp add: s1)
qed

theorem stop_overlay_inactive_noop_witness:
  "stop_overlay (host True (Inr 78) (\<lambda>_. None) (\<lambda>_ _. None)) new_manager
     = \<lparr>process = None, events = [], journal = [(DEBUG, StopInactive)]\<rparr>
   \<and> process (stop_overlay (host True (Inr 78) (\<lambda>_. Some 0) (\<lambda>_ _. None)) manager_with_child)
       = Some 77
   \<and> events (stop_overlay (host True (Inr 78) (\<lambda>_. Some 0) (\<lambda>_ _. None)) manager_with_child)
       = events manager_with_child"
proof -
  let ?os = "host True (Inr 78) (\<lambda>_. None) (\<lambda>_ _. None)"
  let ?gone = "host True (Inr 78) (\<lambda>_. Some 0) (\<lambda>_ _. None)"
  have n1: "\<not> is_running ?os new_manager"
    by (simp add: is_running_def new_manager_def)
  have n2: "\<not> is_running ?gone manager_with_child"
    by (simp add: is_running_def)
  from stop_overlay_inactive_noop [OF n1]
  have "process (stop_overlay ?os new_manager) = None
    \<and> events (stop_overlay ?os new_manager) = []
    \<and> journal (stop_overlay ?os new_manager) = [(DEBUG, StopInactive)]"
    by (simp add: new_manager_def)
  then have a: "stop_overlay ?os new_manager
     = \<lparr>process = None, events = [], journal = [(DEBUG, StopInactive)]\<rparr>"
    by (cases "stop_overlay ?os new_manager") simp
  from stop_overlay_inactive_noop [OF n2] a show ?thesis
    by simp
qed

lemma start_overlay_script_missing:
  assumes "\<not> is_running os m" and "\<not> path_exists os (script_path os)"
  shows "start_overlay os m = m\<lparr>journal := journal m @ [(ERROR, ScriptNotFound (script_path os))]\<rparr>"
  using assms by (simp add: start_overlay_def)

lemma start_overlay_spawn_failed:
  assumes "\<not> is_running os m" and "path_exists os (script_path os)"
    and "popen os (cmd os) (current_dir os) = Inl e"
  shows "start_overlay os m = m\<lparr>journal := journal m @ [(ERROR, SpawnFailed e)]\<rparr>"
  using assms by (simp add: start_overlay_def)

text \<open>
  C7. \<open>run(enabled)\<close> returns its input for every input and every state, after
  \<open>start_overlay()\<close> for true and \<open>stop_overlay()\<close> for false. A missing script and an
  \<open>OSError\<close> from \<open>Popen\<close> do not reach the caller: \<open>run(True)\<close> still returns true, the
  supervisor's handle and the operating system are untouched, and the error is logged.
\<close>

theorem run_returns_enabled:
  "fst (run os enabled m) = enabled
   \<and> snd (run os enabled m) =
       (if enabled
        then start_overlay os (m\<lparr>journal := journal m @ [(INFO, NodeExecuted enabled)]\<rparr>)
        else stop_overlay os (m\<lparr>journal := journal m @ [(INFO, NodeExecuted enabled)]\<rparr>))
   \<and> (\<not> is_running os m \<and> \<not> path_exists os (script_path os) \<longrightarrow>
        run os True m
          = (True, m\<lparr>journal := journal m @
                      [(INFO, NodeExecuted True), (ERROR, ScriptNotFound (script_path os))]\<rparr>))
   \<and> (\<forall>e. \<not> is_running os m \<and> path_exists os (script_path os)
          \<and> popen os (cmd os) (current_dir os) = Inl e \<longrightarrow>
        run os True m
          = (True, m\<lparr>journal := journal m @
                      [(INFO, NodeExecuted True), (ERROR, SpawnFailed e)]\<rparr>))"
proof -
  let ?m0 = "m\<lparr>journal := journal m @ [(INFO, NodeExecuted True)]\<rparr>"
  have r: "is_running os ?m0 = is_running os m"
    by (simp add: is_running_def)
  show ?thesis
    by (simp add: run_def Let_def r start_overlay_script_missing start_overlay_spawn_failed)
qed

theorem run_returns_enabled_witness:
  "run (host False (Inr 77) (\<lambda>_. None) (\<lambda>_ _. None)) True new_manager
     = (True, \<lparr>process = None, events = [],
               journal = [(INFO, NodeExecuted True),
                          (ERROR, ScriptNotFound ''/opt/nodes/overlay/mvu_overlay_app.py'')]\<rparr>)
   \<and> run (host True (Inl 13) (\<lambda>_. None) (\<lambda>_ _. None)) True new_manager
     = (True, \<lparr>process = None, events = [],
               journal = [(INFO, NodeExecuted True), (ERROR, SpawnFailed 13)]\<rparr>)
   \<and> fst (run (host True (Inr 77) (\<lambda>_. None) (\<lambda>_ _. None)) False new_manager) = False"
proof -
  let ?missing = "host False (Inr 77) (\<lambda>_. None) (\<lambda>_ _. None)"
  let ?refused = "host True (Inl 13) (\<lambda>_. None) (\<lambda>_ _. None)"
  let ?fine = "host True (Inr 77) (\<lambda>_. None) (\<lambda>_ _. None)"
  have a: "\<not> is_running ?missing new_manager \<and> \<not> path_exists ?missing (script_path ?missing)"
    by (simp add: is_running_def new_manager_def)
  have b: "\<not> is_running ?refused new_manager \<and> path_exists ?refused (script_path ?refused)
      \<and> popen ?refused (cmd ?refused) (current_dir ?refused) = Inl 13"
    by (simp add: is_running_def new_manager_def script_path_def os_path_join_def)
  from a run_returns_enabled [of ?missing True new_manager]
  have "run ?missing True new_manager
      = (True, new_manager\<lparr>journal := journal new_manager @
                 [(INFO, NodeExecuted True), (ERROR, ScriptNotFound (script_path ?missing))]\<rparr>)"
    by blast
  then have c: "run ?missing True new_manager
     = (True, \<lparr>process = None, events = [],
               journal = [(INFO, NodeExecuted True),
                          (ERROR, ScriptNotFound ''/opt/nodes/overlay/mvu_overlay_app.py'')]\<rparr>)"
    by (simp add: new_manager_def script_path_def os_path_join_def)
  from b run_returns_enabled [of ?refused True new_manager]
  have "run ?refused True new_manager
      = (True, new_manager\<lparr>journal := journal new_manager @
                 [(INFO, NodeExecuted True), (ERROR, SpawnFailed 13)]\<rparr>)"
    by blast
  then have d: "run ?refused True new_manager
     = (True, \<lparr>process = None, events = [],
               journal = [(INFO, NodeExecuted True), (ERROR, SpawnFailed 13)]\<rparr>)"
    by (simp add: new_manager_def)
  from run_returns_enabled [of ?fine False new_manager]
  have e: "fst (run ?fine False new_manager) = False"
    by blast
  from c d e show ?thesis by blast
qed

end
